theory Spec2Isabelle
  imports Main
begin

section \<open>Errors, panics and results\<close>

text \<open>
  A Go \<^verbatim>\<open>error\<close> is a value of \<open>error option\<close>: \<open>None\<close> is \<^verbatim>\<open>nil\<close>.
  \<open>EOF\<close> and \<open>ErrClosedPipe\<close> are the two sentinel errors of package \<^verbatim>\<open>io\<close>,
  \<open>Errorf\<close> is an error made by \<^verbatim>\<open>fmt.Errorf\<close> (its message), \<open>Failure\<close> is an error
  reported by the slack client library or the JSON decoder, and \<open>ErrSet\<close> is the
  \<^verbatim>\<open>errset.ErrSet\<close> slice of errors (entries may be nil) used as an error value.
\<close>

datatype error =
    EOF
  | ErrClosedPipe
  | Errorf string
  | Failure string
  | ErrSet "error option list"

text \<open>
  A call returns, panics, or blocks: \<^verbatim>\<open>panic(err)\<close> carries the error, a field access
  or method call through a nil pointer is \<open>Nil_dereference\<close>, and \<open>Blocks\<close> is a call
  that cannot return in the present state.
\<close>

datatype panic = Panic_error error | Nil_dereference

datatype 'a outcome = Returns 'a | Panics panic | Blocks

text \<open>
  \<^verbatim>\<open>errset.ErrSet.ReturnValue\<close>: nil when every entry of the set is nil, the set itself
  otherwise.
\<close>

definition ErrSet_ReturnValue :: "error option list \<Rightarrow> error option" where
  "ErrSet_ReturnValue errs = (if list_all (\<lambda>e. e = None) errs then None else Some (ErrSet errs))"

section \<open>The pipe of package io\<close>

text \<open>
  \<^verbatim>\<open>io.Pipe()\<close> returns the two ends of one synchronous in-memory pipe; the model
  follows the standard library (io/pipe.go, since Go 1.10). The pipe has no buffer: a
  \<^verbatim>\<open>Write\<close> hands its bytes to the \<^verbatim>\<open>Read\<close> calls directly and returns only when
  they have consumed all of them, or when the pipe has been closed.
  \<open>wr_data\<close> holds the bytes of the write in flight that no read has taken yet,
  \<open>rerr\<close> and \<open>werr\<close> are the errors stored by closing the read and the write end
  (the first one stored wins), and \<open>pdone\<close> says that either end has been closed.
\<close>

record pipe =
  wr_data :: string
  rerr :: "error option"
  werr :: "error option"
  pdone :: bool

definition io_Pipe :: pipe where
  "io_Pipe = \<lparr>wr_data = [], rerr = None, werr = None, pdone = False\<rparr>"

definition onceError_Store :: "error option \<Rightarrow> error \<Rightarrow> error option" where
  "onceError_Store cur err = (case cur of None \<Rightarrow> Some err | Some e \<Rightarrow> Some e)"

definition readCloseError :: "pipe \<Rightarrow> error" where
  "readCloseError p =
     (case rerr p of
        None \<Rightarrow> (case werr p of Some e \<Rightarrow> e | None \<Rightarrow> ErrClosedPipe)
      | Some _ \<Rightarrow> ErrClosedPipe)"

definition writeCloseError :: "pipe \<Rightarrow> error" where
  "writeCloseError p =
     (case werr p of
        None \<Rightarrow> (case rerr p of Some e \<Rightarrow> e | None \<Rightarrow> ErrClosedPipe)
      | Some _ \<Rightarrow> ErrClosedPipe)"

definition PipeReader_CloseWithError :: "pipe \<Rightarrow> error option \<Rightarrow> pipe" where
  "PipeReader_CloseWithError p err =
     p\<lparr>rerr := onceError_Store (rerr p) (case err of None \<Rightarrow> ErrClosedPipe | Some e \<Rightarrow> e),
       pdone := True\<rparr>"

definition PipeReader_Close :: "pipe \<Rightarrow> pipe" where
  "PipeReader_Close p = PipeReader_CloseWithError p None"

definition PipeWriter_CloseWithError :: "pipe \<Rightarrow> error option \<Rightarrow> pipe" where
  "PipeWriter_CloseWithError p err =
     p\<lparr>werr := onceError_Store (werr p) (case err of None \<Rightarrow> EOF | Some e \<Rightarrow> e),
       pdone := True\<rparr>"

definition PipeWriter_Close :: "pipe \<Rightarrow> pipe" where
  "PipeWriter_Close p = PipeWriter_CloseWithError p None"

text \<open>
  A foreground \<^verbatim>\<open>Read\<close> into a buffer of \<open>n\<close> bytes returns the bytes it stored in
  the buffer and an error: on a closed pipe no bytes and the close error; with a write
  in flight up to \<open>n\<close> of its bytes and nil; otherwise it blocks.
\<close>

definition PipeReader_Read :: "pipe \<Rightarrow> nat \<Rightarrow> (string \<times> error option) outcome \<times> pipe" where
  "PipeReader_Read p n =
     (if pdone p then (Returns ([], Some (readCloseError p)), p)
      else if wr_data p = [] then (Blocks, p)
      else (Returns (take n (wr_data p), None), p\<lparr>wr_data := drop n (wr_data p)\<rparr>))"

text \<open>
  \<^verbatim>\<open>Write\<close> in two parts. Starting a write of a non-empty slice fails at once on a
  closed pipe; otherwise the bytes are in flight. The writer then waits: the write
  returns nil once every byte has been taken, the close error when the pipe is closed
  first, and blocks until one of the two happens.
\<close>

definition PipeWriter_Write_start :: "pipe \<Rightarrow> string \<Rightarrow> error + pipe" where
  "PipeWriter_Write_start p b =
     (if pdone p then Inl (writeCloseError p) else Inr (p\<lparr>wr_data := b\<rparr>))"

definition PipeWriter_Write_wait :: "pipe \<Rightarrow> (error option \<times> pipe) option" where
  "PipeWriter_Write_wait p =
     (if wr_data p = [] then Some (None, p)
      else if pdone p then Some (Some (writeCloseError p), p\<lparr>wr_data := []\<rparr>)
      else None)"

section \<open>The slack client library, as the adapter uses it\<close>

record RTMMessage =
  Type :: string
  Text :: string
  Channel :: string
  User :: string

text \<open>
  An event of the realtime stream has a kind and a payload. \<open>event_Message\<close> is what
  the event's \<^verbatim>\<open>Message()\<close> method returns: the message (\<open>None\<close> for a nil pointer)
  and the error of parsing the payload.
\<close>

record RTMEvent =
  event_Type :: string
  event_Message :: "RTMMessage option \<times> error option"

text \<open>
  The zero value of the event struct, which a receive from a closed Go channel of
  events yields.
\<close>

definition zero_RTMEvent :: RTMEvent where
  "zero_RTMEvent = \<lparr>event_Type = [], event_Message = (None, None)\<rparr>"

text \<open>
  The session. \<open>Events\<close> are the events delivered on the stream and not yet received,
  in arrival order, and \<open>Events_closed\<close> says that the stream has been closed.
  \<open>Published\<close> logs the calls of \<^verbatim>\<open>Publish\<close> and \<open>Close_calls\<close> counts those of
  \<^verbatim>\<open>Close\<close>; what the k-th call of either returns is the session's business
  (\<open>Publish_result\<close>, \<open>Close_result\<close>), as is the result of \<^verbatim>\<open>Connect\<close>.
\<close>

record RTMBroker =
  Events :: "RTMEvent list"
  Events_closed :: bool
  Connect_result :: "error option"
  Published :: "RTMMessage list"
  Publish_result :: "nat \<Rightarrow> error option"
  Close_calls :: nat
  Close_result :: "nat \<Rightarrow> error option"

record slacker_Channel =
  Name :: string
  ID :: string

text \<open>
  The API client: the results of the three calls the adapter makes. The descriptor
  returned by \<^verbatim>\<open>RTMStart\<close> is the session that \<^verbatim>\<open>NewRTMBroker\<close> makes of it.
\<close>

record APIClient =
  ChannelsList :: "error + slacker_Channel list"
  RunMethod :: "string \<Rightarrow> error + string"
  RTMStart :: "error + RTMBroker"

text \<open>
  Sessions are shared through pointers, so they live in a store. The world also holds
  the two library functions the constructors call: \<^verbatim>\<open>slacker.NewAPIClient(token, url)\<close>
  and \<^verbatim>\<open>json.Unmarshal\<close> into the one-field struct \<^verbatim>\<open>auth\<close>, which gives the
  \<^verbatim>\<open>UserID\<close> left in the struct (it starts empty) and the decoder's error.
\<close>

type_synonym addr = nat

record world =
  NewAPIClient :: "string \<Rightarrow> string \<Rightarrow> APIClient"
  json_Unmarshal :: "string \<Rightarrow> string \<times> error option"
  brokers :: "addr \<Rightarrow> RTMBroker"
  next_broker :: addr

definition NewRTMBroker :: "RTMBroker \<Rightarrow> world \<Rightarrow> addr \<times> world" where
  "NewRTMBroker rtmStart w =
     (next_broker w,
      w\<lparr>brokers := (brokers w)(next_broker w := rtmStart), next_broker := Suc (next_broker w)\<rparr>)"

definition RTMBroker_Connect :: "addr \<Rightarrow> world \<Rightarrow> error option \<times> world" where
  "RTMBroker_Connect a w = (Connect_result (brokers w a), w)"


definition RTMBroker_Close :: "addr \<Rightarrow> world \<Rightarrow> error option \<times> world" where
  "RTMBroker_Close a w =
     (let b = brokers w a in
      (Close_result b (Close_calls b),
       w\<lparr>brokers := (brokers w)(a := b\<lparr>Close_calls := Suc (Close_calls b)\<rparr>)\<rparr>))"

text \<open>
  \<^verbatim>\<open>event := <-broker.Events()\<close>: the next event; the zero event when the stream is
  closed and drained; \<open>None\<close> when the receive blocks.
\<close>

definition receive :: "RTMBroker \<Rightarrow> (RTMEvent \<times> RTMBroker) option" where
  "receive b =
     (case Events b of
        e # es \<Rightarrow> Some (e, b\<lparr>Events := es\<rparr>)
      | [] \<Rightarrow> if Events_closed b then Some (zero_RTMEvent, b) else None)"

section \<open>readerWriterCommon and newIface\<close>

record readerWriterCommon =
  channelID :: string
  selfUserID :: string
  client :: APIClient
  broker :: addr

text \<open>
  The loop over the channel list: \<open>cid\<close> is \<^verbatim>\<open>s.channelID\<close>, assigned at the first
  entry with the name, where the loop breaks.
\<close>

fun scan_channels :: "slacker_Channel list \<Rightarrow> string \<Rightarrow> string \<Rightarrow> string" where
  "scan_channels [] channelName cid = cid"
| "scan_channels (channel # channels) channelName cid =
     (if Name channel = channelName then ID channel
      else scan_channels channels channelName cid)"

definition newIface ::
  "string \<Rightarrow> string \<Rightarrow> string \<Rightarrow> world \<Rightarrow> (error + readerWriterCommon) \<times> world" where
  "newIface url token channelName w =
     (let cl = NewAPIClient w token url in
      case ChannelsList cl of
        Inl err \<Rightarrow> (Inl err, w)
      | Inr channels \<Rightarrow>
          let cid = scan_channels channels channelName [] in
          if cid = [] then (Inl (Errorf (''cannot find channel '' @ channelName)), w)
          else
            (case RunMethod cl ''auth.test'' of
               Inl err \<Rightarrow> (Inl err, w)
             | Inr authBuf \<Rightarrow>
                 let auth_UserID = fst (json_Unmarshal w authBuf) in
                 (case RTMStart cl of
                    Inl err \<Rightarrow> (Inl err, w)
                  | Inr rtmStart \<Rightarrow>
                      (case NewRTMBroker rtmStart w of (b, w1) \<Rightarrow>
                        (case RTMBroker_Connect b w1 of
                           (Some err, w2) \<Rightarrow> (Inl err, w2)
                         | (None, w2) \<Rightarrow>
                             (Inr \<lparr>channelID = cid, selfUserID = auth_UserID,
                                   client = cl, broker = b\<rparr>, w2))))))"

definition readerWriterCommon_Close :: "readerWriterCommon \<Rightarrow> world \<Rightarrow> error option \<times> world" where
  "readerWriterCommon_Close s w = RTMBroker_Close (broker s) w"

section \<open>Reader\<close>

text \<open>
  The state of the goroutine that runs \<^verbatim>\<open>reader()\<close>: not started, at the receive from
  the event stream, inside the write to the pipe, returned, or panicked.
\<close>

datatype task = NotStarted | Receiving | Writing | Returned | Panicked

text \<open>
  \<open>Reader_pipe\<close> is the pipe behind \<^verbatim>\<open>pipeReader\<close> and \<^verbatim>\<open>pipeWriter\<close>, which
  \<^verbatim>\<open>init\<close> sets together from one call of \<^verbatim>\<open>io.Pipe()\<close>; both are nil before.
  \<open>Reader_task\<close> is the goroutine that \<^verbatim>\<open>init\<close> starts.
\<close>

record Reader =
  Reader_common :: readerWriterCommon
  Reader_pipe :: "pipe option"
  Reader_task :: task

definition Reader_init :: "Reader \<Rightarrow> Reader" where
  "Reader_init s = s\<lparr>Reader_pipe := Some io_Pipe, Reader_task := Receiving\<rparr>"

definition NewReader :: "string \<Rightarrow> string \<Rightarrow> string \<Rightarrow> world \<Rightarrow> (error + Reader) \<times> world" where
  "NewReader url token channel w =
     (case newIface url token channel w of
        (Inl err, w') \<Rightarrow> (Inl err, w')
      | (Inr c, w') \<Rightarrow>
          (Inr (Reader_init \<lparr>Reader_common = c, Reader_pipe = None, Reader_task = NotStarted\<rparr>),
           w'))"

definition Reader_Read :: "Reader \<Rightarrow> nat \<Rightarrow> (string \<times> error option) outcome \<times> Reader" where
  "Reader_Read s n =
     (case Reader_pipe s of
        None \<Rightarrow> (Panics Nil_dereference, s)
      | Some p \<Rightarrow> (case PipeReader_Read p n of (r, p') \<Rightarrow> (r, s\<lparr>Reader_pipe := Some p'\<rparr>)))"

text \<open>
  The body of the loop of \<^verbatim>\<open>reader()\<close> for one received event, up to the start of the
  write that \<^verbatim>\<open>fmt.Fprintf\<close> makes of the text and a newline. \<^verbatim>\<open>Slack.reader\<close> and
  \<^verbatim>\<open>Reader.reader\<close> have the same body; \<open>cid\<close> and \<open>uid\<close> are the channel and user
  identifiers they compare with.
\<close>

definition reader_body :: "string \<Rightarrow> string \<Rightarrow> RTMEvent \<Rightarrow> pipe \<Rightarrow> pipe \<times> task" where
  "reader_body cid uid event p =
     (if event_Type event = ''message'' then
        (case event_Message event of (msg, err) \<Rightarrow>
           let p1 = (case err of None \<Rightarrow> p | Some e \<Rightarrow> PipeWriter_CloseWithError p (Some e)) in
           (case msg of
              None \<Rightarrow> (p1, Panicked)
            | Some m \<Rightarrow>
                if Channel m \<noteq> cid then (p1, Receiving)
                else if User m = uid then (p1, Receiving)
                else
                  (case PipeWriter_Write_start p1 (Text m @ [CHR 0x0A]) of
                     Inl e \<Rightarrow> (PipeWriter_CloseWithError p1 (Some e), Returned)
                   | Inr p2 \<Rightarrow> (p2, Writing))))
      else (p, Receiving))"

text \<open>
  One step of the goroutine, \<open>None\<close> when it cannot move: blocked in the receive,
  blocked in the write, or over.
\<close>

definition reader_step ::
  "string \<Rightarrow> string \<Rightarrow> RTMBroker \<Rightarrow> pipe \<Rightarrow> task \<Rightarrow> (RTMBroker \<times> pipe \<times> task) option" where
  "reader_step cid uid b p t =
     (case t of
        Receiving \<Rightarrow>
          (case receive b of
             None \<Rightarrow> None
           | Some (event, b') \<Rightarrow>
               (case reader_body cid uid event p of (p', t') \<Rightarrow> Some (b', p', t')))
      | Writing \<Rightarrow>
          (case PipeWriter_Write_wait p of
             None \<Rightarrow> None
           | Some (None, p') \<Rightarrow> Some (b, p', Receiving)
           | Some (Some err, p') \<Rightarrow> Some (b, PipeWriter_CloseWithError p' (Some err), Returned))
      | NotStarted \<Rightarrow> None
      | Returned \<Rightarrow> None
      | Panicked \<Rightarrow> None)"

definition Reader_reader :: "Reader \<Rightarrow> world \<Rightarrow> (Reader \<times> world) option" where
  "Reader_reader s w =
     (case Reader_pipe s of
        None \<Rightarrow> None
      | Some p \<Rightarrow>
          (let c = Reader_common s in
           case reader_step (channelID c) (selfUserID c) (brokers w (broker c)) p (Reader_task s) of
             None \<Rightarrow> None
           | Some (b', p', t') \<Rightarrow>
               Some (s\<lparr>Reader_pipe := Some p', Reader_task := t'\<rparr>,
                     w\<lparr>brokers := (brokers w)(broker c := b')\<rparr>)))"

definition Reader_Close :: "Reader \<Rightarrow> world \<Rightarrow> error option outcome \<times> Reader \<times> world" where
  "Reader_Close s w =
     (case Reader_pipe s of
        None \<Rightarrow> (Panics Nil_dereference, s, w)
      | Some p \<Rightarrow>
          (let p1 = PipeReader_Close p; p2 = PipeWriter_Close p1 in
           case readerWriterCommon_Close (Reader_common s) w of
             (err, w') \<Rightarrow> (Returns err, s\<lparr>Reader_pipe := Some p2\<rparr>, w')))"

section \<open>Writer\<close>

record Writer =
  Writer_common :: readerWriterCommon

definition NewWriter :: "string \<Rightarrow> string \<Rightarrow> string \<Rightarrow> world \<Rightarrow> (error + Writer) \<times> world" where
  "NewWriter url token channel w =
     (case newIface url token channel w of
        (Inl err, w') \<Rightarrow> (Inl err, w')
      | (Inr c, w') \<Rightarrow> (Inr \<lparr>Writer_common = c\<rparr>, w'))"


definition Writer_Close :: "Writer \<Rightarrow> world \<Rightarrow> error option \<times> world" where
  "Writer_Close s w = readerWriterCommon_Close (Writer_common s) w"

section \<open>ReaderWriter\<close>

record ReaderWriter =
  ReaderWriter_common :: readerWriterCommon
  ReaderWriter_Reader :: Reader
  ReaderWriter_Writer :: Writer

definition NewReaderWriter ::
  "string \<Rightarrow> string \<Rightarrow> string \<Rightarrow> world \<Rightarrow> (error + ReaderWriter) \<times> world" where
  "NewReaderWriter url token channel w =
     (case newIface url token channel w of
        (Inl err, w') \<Rightarrow> (Inl err, w')
      | (Inr c, w') \<Rightarrow>
          (let s = \<lparr>ReaderWriter_common = c,
                    ReaderWriter_Reader =
                      \<lparr>Reader_common = c, Reader_pipe = None, Reader_task = NotStarted\<rparr>,
                    ReaderWriter_Writer = \<lparr>Writer_common = c\<rparr>\<rparr>
           in (Inr (s\<lparr>ReaderWriter_Reader := Reader_init (ReaderWriter_Reader s)\<rparr>), w')))"

definition ReaderWriter_Close ::
  "ReaderWriter \<Rightarrow> world \<Rightarrow> error option outcome \<times> ReaderWriter \<times> world" where
  "ReaderWriter_Close s w =
     (case Reader_Close (ReaderWriter_Reader s) w of
        (Returns e1, r, w1) \<Rightarrow>
          (case readerWriterCommon_Close (ReaderWriter_common s) w1 of
             (e2, w2) \<Rightarrow>
               (Returns (ErrSet_ReturnValue ([] @ [e1] @ [e2])), s\<lparr>ReaderWriter_Reader := r\<rparr>, w2))
      | (Panics x, r, w1) \<Rightarrow> (Panics x, s\<lparr>ReaderWriter_Reader := r\<rparr>, w1)
      | (Blocks, r, w1) \<Rightarrow> (Blocks, s\<lparr>ReaderWriter_Reader := r\<rparr>, w1))"

section \<open>Slack\<close>

text \<open>
  The type of the first version of the package, which initialises itself lazily.
  \<open>Slack_readPipe\<close> is the pipe behind \<^verbatim>\<open>readPipeReader\<close> and \<^verbatim>\<open>readPipeWriter\<close>,
  nil until \<^verbatim>\<open>initRead\<close>; \<open>Slack_task\<close> is the goroutine \<^verbatim>\<open>initRead\<close> starts. The
  fields \<^verbatim>\<open>writePipeReader\<close> and \<^verbatim>\<open>writePipeWriter\<close> are never used.
\<close>

record Slack =
  Slack_URL :: string
  Slack_Token :: string
  Slack_Channel :: string
  Slack_channelID :: string
  Slack_selfUserID :: string
  Slack_client :: "APIClient option"
  Slack_broker :: "addr option"
  Slack_readPipe :: "pipe option"
  Slack_task :: task

definition Slack_init :: "Slack \<Rightarrow> world \<Rightarrow> error option outcome \<times> Slack \<times> world" where
  "Slack_init s w =
     (if Slack_broker s \<noteq> None then (Returns None, s, w)
      else
        let cl = NewAPIClient w (Slack_Token s) (Slack_URL s);
            s1 = s\<lparr>Slack_client := Some cl, Slack_channelID := []\<rparr>
        in
        case ChannelsList cl of
          Inl err \<Rightarrow> (Returns (Some err), s1, w)
        | Inr channels \<Rightarrow>
            let s2 = s1\<lparr>Slack_channelID := scan_channels channels (Slack_Channel s1) []\<rparr> in
            if Slack_channelID s2 = [] then
              (Returns (Some (Errorf (''cannot find channel '' @ Slack_Channel s2))), s2, w)
            else
              (case RunMethod cl ''auth.test'' of
                 Inl err \<Rightarrow> (Panics (Panic_error err), s2, w)
               | Inr authBuf \<Rightarrow>
                   let auth_UserID = fst (json_Unmarshal w authBuf) in
                   (case RTMStart cl of
                      Inl err \<Rightarrow> (Returns (Some err), s2, w)
                    | Inr rtmStart \<Rightarrow>
                        let s3 = s2\<lparr>Slack_selfUserID := auth_UserID\<rparr> in
                        (case NewRTMBroker rtmStart w of (b, w1) \<Rightarrow>
                           (case RTMBroker_Connect b w1 of
                              (err, w2) \<Rightarrow> (Returns err, s3\<lparr>Slack_broker := Some b\<rparr>, w2))))))"

definition Slack_New :: "string \<Rightarrow> string \<Rightarrow> string \<Rightarrow> world \<Rightarrow> (error + Slack) outcome \<times> world" where
  "Slack_New url token channel w =
     (case Slack_init \<lparr>Slack_URL = url, Slack_Token = token, Slack_Channel = channel,
                       Slack_channelID = [], Slack_selfUserID = [], Slack_client = None,
                       Slack_broker = None, Slack_readPipe = None, Slack_task = NotStarted\<rparr> w of
        (Returns None, s, w') \<Rightarrow> (Returns (Inr s), w')
      | (Returns (Some err), s, w') \<Rightarrow> (Returns (Inl err), w')
      | (Panics x, s, w') \<Rightarrow> (Panics x, w')
      | (Blocks, s, w') \<Rightarrow> (Blocks, w'))"


definition Slack_initRead :: "Slack \<Rightarrow> world \<Rightarrow> error option outcome \<times> Slack \<times> world" where
  "Slack_initRead s w =
     (case Slack_init s w of
        (Returns None, s', w') \<Rightarrow>
          (if Slack_readPipe s' = None
           then (Returns None, s'\<lparr>Slack_readPipe := Some io_Pipe, Slack_task := Receiving\<rparr>, w')
           else (Returns None, s', w'))
      | r \<Rightarrow> r)"


definition Slack_Read ::
  "Slack \<Rightarrow> nat \<Rightarrow> world \<Rightarrow> (string \<times> error option) outcome \<times> Slack \<times> world" where
  "Slack_Read s n w =
     (case Slack_initRead s w of
        (Returns (Some err), s', w') \<Rightarrow> (Returns ([], Some err), s', w')
      | (Panics x, s', w') \<Rightarrow> (Panics x, s', w')
      | (Blocks, s', w') \<Rightarrow> (Blocks, s', w')
      | (Returns None, s', w') \<Rightarrow>
          (case Slack_readPipe s' of
             None \<Rightarrow> (Panics Nil_dereference, s', w')
           | Some p \<Rightarrow>
               (case PipeReader_Read p n of (r, p') \<Rightarrow> (r, s'\<lparr>Slack_readPipe := Some p'\<rparr>, w'))))"

definition Slack_reader :: "Slack \<Rightarrow> world \<Rightarrow> (Slack \<times> world) option" where
  "Slack_reader s w =
     (case (Slack_readPipe s, Slack_broker s) of
        (Some p, Some a) \<Rightarrow>
          (case reader_step (Slack_channelID s) (Slack_selfUserID s) (brokers w a) p (Slack_task s) of
             None \<Rightarrow> None
           | Some (b', p', t') \<Rightarrow>
               Some (s\<lparr>Slack_readPipe := Some p', Slack_task := t'\<rparr>,
                     w\<lparr>brokers := (brokers w)(a := b')\<rparr>))
      | _ \<Rightarrow> None)"

definition Slack_Close :: "Slack \<Rightarrow> world \<Rightarrow> error option \<times> Slack \<times> world" where
  "Slack_Close s w =
     (let s1 = (case Slack_readPipe s of
                  None \<Rightarrow> s
                | Some p \<Rightarrow> s\<lparr>Slack_readPipe := Some (PipeReader_Close p)\<rparr>);
          s2 = (case Slack_readPipe s1 of
                  None \<Rightarrow> s1
                | Some p \<Rightarrow> s1\<lparr>Slack_readPipe := Some (PipeWriter_Close p)\<rparr>)
      in
      case Slack_broker s2 of
        None \<Rightarrow> (None, s2, w)
      | Some a \<Rightarrow> (case RTMBroker_Close a w of (err, w') \<Rightarrow> (None, s2, w')))"

section \<open>The read path under a schedule\<close>

text \<open>
  The goroutine and the foreground run interleaved. A schedule is a list of actions:
  \<open>Step\<close> lets the goroutine of \<^verbatim>\<open>reader()\<close> take one step (nothing happens when it is
  blocked), \<open>Read n\<close> is a foreground \<^verbatim>\<open>Read\<close> into a buffer of \<open>n\<close> bytes (nothing
  happens when it would block). \<open>run\<close> collects the bytes the reads return: what the
  read path yields.
\<close>

datatype action = Step | Read nat

fun run :: "action list \<Rightarrow> Reader \<Rightarrow> world \<Rightarrow> string \<Rightarrow> Reader \<times> world \<times> string" where
  "run [] s w out = (s, w, out)"
| "run (Step # acts) s w out =
     (case Reader_reader s w of
        None \<Rightarrow> run acts s w out
      | Some (s', w') \<Rightarrow> run acts s' w' out)"
| "run (Read n # acts) s w out =
     (case Reader_Read s n of
        (Returns (bs, err), s') \<Rightarrow> run acts s' w (out @ bs)
      | (Panics x, s') \<Rightarrow> run acts s' w out
      | (Blocks, s') \<Rightarrow> run acts s' w out)"

text \<open>
  The read path in the words of the specification: an event of kind message that is on
  the bound channel and from another user than the binding's own contributes its text
  and one newline, every other event contributes nothing.
\<close>

definition spec_line :: "string \<Rightarrow> string \<Rightarrow> RTMEvent \<Rightarrow> string" where
  "spec_line cid uid e =
     (if event_Type e = ''message'' then
        (case event_Message e of
           (Some m, None) \<Rightarrow> if Channel m = cid \<and> User m \<noteq> uid then Text m @ [CHR 0x0A] else []
         | _ \<Rightarrow> [])
      else [])"

definition spec_read_path :: "string \<Rightarrow> string \<Rightarrow> RTMEvent list \<Rightarrow> string" where
  "spec_read_path cid uid es = concat (map (spec_line cid uid) es)"

text \<open>An event of kind message parses when \<^verbatim>\<open>Message()\<close> gives a message and no error.\<close>

definition parses :: "RTMEvent \<Rightarrow> bool" where
  "parses e =
     (if event_Type e = ''message'' then
        (case event_Message e of (Some m, None) \<Rightarrow> True | _ \<Rightarrow> False)
      else True)"

text \<open>
  The schedule of a foreground that reads every line as soon as it is written: for an
  event that yields a line, the goroutine starts the write, one read takes the line,
  and the goroutine returns from the write; any other event takes one step.
\<close>

definition attentive :: "string \<Rightarrow> string \<Rightarrow> RTMEvent list \<Rightarrow> action list" where
  "attentive cid uid es =
     concat (map (\<lambda>e. if spec_line cid uid e = [] then [Step]
                      else [Step, Read (length (spec_line cid uid e)), Step]) es)"

text \<open>
  The bytes of the write in flight, and the world once the goroutine has received
  events so that \<open>es\<close> are left on the stream of the binding \<open>c\<close>.
\<close>

definition in_flight :: "Reader \<Rightarrow> string" where
  "in_flight s = (case Reader_pipe s of None \<Rightarrow> [] | Some p \<Rightarrow> wr_data p)"

definition drained :: "readerWriterCommon \<Rightarrow> world \<Rightarrow> RTMEvent list \<Rightarrow> world" where
  "drained c w es = w\<lparr>brokers := (brokers w)(broker c := (brokers w (broker c))\<lparr>Events := es\<rparr>)\<rparr>"

text \<open>
  What is still to come on the read path: the bytes in flight and the lines of the
  events not yet received. A read path is \<open>healthy\<close> when its pipe is open, every
  event to come parses, and the goroutine is at the receive with nothing in flight or
  inside a write.
\<close>

definition to_come :: "Reader \<Rightarrow> world \<Rightarrow> string" where
  "to_come s w =
     in_flight s @
     spec_read_path (channelID (Reader_common s)) (selfUserID (Reader_common s))
       (Events (brokers w (broker (Reader_common s))))"

definition healthy :: "Reader \<Rightarrow> world \<Rightarrow> bool" where
  "healthy s w =
     (case Reader_pipe s of
        None \<Rightarrow> False
      | Some p \<Rightarrow>
          \<not> pdone p \<and> list_all parses (Events (brokers w (broker (Reader_common s)))) \<and>
          (Reader_task s = Receiving \<and> wr_data p = [] \<or> Reader_task s = Writing))"

text \<open>
  The pipe \<open>p'\<close> is \<open>p\<close> with its write end closed with the error \<open>err\<close>: it is closed,
  the error is stored unless an earlier one was, and nothing else has changed.
\<close>

definition closed_with :: "pipe \<Rightarrow> error \<Rightarrow> pipe \<Rightarrow> bool" where
  "closed_with p err p' =
     (pdone p' \<and> werr p' = Some (case werr p of None \<Rightarrow> err | Some e \<Rightarrow> e) \<and>
      rerr p' = rerr p \<and> wr_data p' = wr_data p)"

section \<open>An example world\<close>

text \<open>
  A workspace with the channels random and general (a name may occur twice), where
  the caller is user U1. The stand-in decoder takes the body of the identity call to
  be the user identifier itself and rejects the body \<open>''<html>''\<close>. The session
  accepts every call.
\<close>

definition example_session :: "RTMEvent list \<Rightarrow> bool \<Rightarrow> RTMBroker" where
  "example_session es closed =
     \<lparr>Events = es, Events_closed = closed, Connect_result = None, Published = [],
      Publish_result = (\<lambda>k. None), Close_calls = 0, Close_result = (\<lambda>k. None)\<rparr>"

definition example_channels :: "slacker_Channel list" where
  "example_channels =
     [\<lparr>Name = ''random'', ID = ''random-id''\<rparr>, \<lparr>Name = ''general'', ID = ''general-id''\<rparr>,
      \<lparr>Name = ''general'', ID = ''other-id''\<rparr>]"

definition example_client :: "slacker_Channel list \<Rightarrow> error + string \<Rightarrow> RTMBroker \<Rightarrow> APIClient" where
  "example_client channels auth session =
     \<lparr>ChannelsList = Inr channels,
      RunMethod = (\<lambda>m. if m = ''auth.test'' then auth else Inl (Failure ''unknown_method'')),
      RTMStart = Inr session\<rparr>"

definition example_api :: "RTMBroker \<Rightarrow> APIClient" where
  "example_api session = example_client example_channels (Inr ''U1'') session"

definition example_decoder :: "string \<Rightarrow> string \<times> error option" where
  "example_decoder buf =
     (if buf = ''<html>'' then ([], Some (Failure ''invalid character'')) else (buf, None))"

definition example_world :: "APIClient \<Rightarrow> world" where
  "example_world cl =
     \<lparr>NewAPIClient = (\<lambda>token url. cl), json_Unmarshal = example_decoder,
      brokers = (\<lambda>a. example_session [] True), next_broker = 0\<rparr>"

definition message_event :: "string \<Rightarrow> string \<Rightarrow> string \<Rightarrow> RTMEvent" where
  "message_event ch u txt =
     \<lparr>event_Type = ''message'',
      event_Message = (Some \<lparr>Type = ''message'', Text = txt, Channel = ch, User = u\<rparr>, None)\<rparr>"

definition malformed_event :: "RTMMessage option \<Rightarrow> RTMEvent" where
  "malformed_event msg =
     \<lparr>event_Type = ''message'', event_Message = (msg, Some (Failure ''unexpected end of JSON input''))\<rparr>"

definition zero_RTMMessage :: RTMMessage where
  "zero_RTMMessage = \<lparr>Type = [], Text = [], Channel = [], User = []\<rparr>"

text \<open>The binding and the reader that the constructors build in the example world.\<close>

definition example_common :: "RTMBroker \<Rightarrow> readerWriterCommon" where
  "example_common session =
     \<lparr>channelID = ''general-id'', selfUserID = ''U1'', client = example_api session, broker = 0\<rparr>"

definition example_Reader :: "RTMBroker \<Rightarrow> Reader" where
  "example_Reader session =
     \<lparr>Reader_common = example_common session, Reader_pipe = Some io_Pipe, Reader_task = Receiving\<rparr>"

definition example_connected :: "RTMBroker \<Rightarrow> world" where
  "example_connected session =
     (example_world (example_api session))
       \<lparr>brokers := (\<lambda>a. example_session [] True)(0 := session), next_broker := Suc 0\<rparr>"

text \<open>
  The events of the scenario: a message of another user on the bound channel, an echo
  of the caller's own message, a message on another channel, and an event of another
  kind.
\<close>

definition scenario_events :: "RTMEvent list" where
  "scenario_events =
     [message_event ''general-id'' ''U2'' ''hello'',
      message_event ''general-id'' ''U1'' ''ignored'',
      message_event ''random-id'' ''U2'' ''elsewhere'',
      \<lparr>event_Type = ''presence_change'', event_Message = (None, Some (Failure ''not a message''))\<rparr>]"

text \<open>A session that reports an error when it is closed again.\<close>

definition closing_session :: RTMBroker where
  "closing_session =
     (example_session [] False)
       \<lparr>Close_result :=
          (\<lambda>k. if k = 0 then None else Some (Failure ''use of closed network connection''))\<rparr>"

text \<open>The caller's adapter of the first version, as \<^verbatim>\<open>New\<close> returns it in the example world.\<close>

definition example_Slack :: "RTMBroker \<Rightarrow> Slack" where
  "example_Slack session =
     \<lparr>Slack_URL = [], Slack_Token = ''token'', Slack_Channel = ''general'',
      Slack_channelID = ''general-id'', Slack_selfUserID = ''U1'',
      Slack_client = Some (example_api session), Slack_broker = Some 0,
      Slack_readPipe = None, Slack_task = NotStarted\<rparr>"

text \<open>The same adapter once \<^verbatim>\<open>initRead\<close> has made the pipe and started the goroutine.\<close>

definition example_reading_Slack :: "RTMBroker \<Rightarrow> Slack" where
  "example_reading_Slack session =
     (example_Slack session)\<lparr>Slack_readPipe := Some io_Pipe, Slack_task := Receiving\<rparr>"

text \<open>
  Streams for the examples: one with a message whose payload does not parse, and one
  with two messages of another user.
\<close>

definition truncated_events :: "RTMMessage option \<Rightarrow> RTMEvent list" where
  "truncated_events msg = [malformed_event msg, message_event ''general-id'' ''U2'' ''hello'']"


definition half_message :: RTMMessage where
  "half_message = \<lparr>Type = ''message'', Text = ''half'', Channel = ''general-id'', User = ''U2''\<rparr>"

text \<open>
  A decoder that returns an error after it has stored the user identifier U1, as
  \<^verbatim>\<open>json.Unmarshal\<close> does where the key of the identifier occurs a second time with a
  value that is not a string.
\<close>

definition stumbling_decoder :: "string \<Rightarrow> string \<times> error option" where
  "stumbling_decoder buf =
     (''U1'', Some (Failure ''cannot unmarshal number into Go struct field of type string''))"


section \<open>The example world, evaluated\<close>

lemma example_newIface:
  "Connect_result ses = None \<Longrightarrow>
   newIface [] ''token'' ''general'' (example_world (example_api ses)) =
     (Inr (example_common ses), example_connected ses)"
  by (simp add: newIface_def NewRTMBroker_def RTMBroker_Connect_def example_world_def
        example_client_def example_api_def example_session_def example_channels_def
        example_decoder_def example_common_def example_connected_def Let_def)

lemma example_NewReader:
  "Connect_result ses = None \<Longrightarrow>
   NewReader [] ''token'' ''general'' (example_world (example_api ses)) =
     (Inr (example_Reader ses), example_connected ses)"
  by (simp add: NewReader_def example_newIface) (simp add: Reader_init_def example_Reader_def)


lemma example_initRead:
  "Slack_initRead (example_Slack ses) w = (Returns None, example_reading_Slack ses, w)"
  by (simp add: Slack_initRead_def Slack_init_def example_Slack_def example_reading_Slack_def)

section \<open>Construction\<close>

lemma scan_channels_find:
  "scan_channels channels nm cid =
     (case find (\<lambda>c. Name c = nm) channels of None \<Rightarrow> cid | Some c \<Rightarrow> ID c)"
  by (induction channels) auto

text \<open>
  C7, as amended. \<^verbatim>\<open>newIface\<close> scans the enumerated channels for the first entry whose
  name is the configured name. When there is none, or when that entry's identifier is
  the empty string, construction fails with the error "cannot find channel" followed by
  the requested name, and the world is untouched. Otherwise a binding that
  construction returns has that entry's identifier, and construction does return one
  when the identity call, the session start and the connect succeed. Whenever
  \<^verbatim>\<open>newIface\<close> fails, the three constructors return its error and no adapter.
\<close>

theorem newIface_resolves_channel:
  assumes "ChannelsList (NewAPIClient w token url) = Inr channels"
  shows "(case find (\<lambda>c. Name c = channelName) channels of
           None \<Rightarrow>
             newIface url token channelName w =
               (Inl (Errorf (''cannot find channel '' @ channelName)), w)
         | Some c \<Rightarrow>
             if ID c = [] then
               newIface url token channelName w =
                 (Inl (Errorf (''cannot find channel '' @ channelName)), w)
             else
               (\<forall>s w'. newIface url token channelName w = (Inr s, w') \<longrightarrow> channelID s = ID c) \<and>
               (\<forall>authBuf rtmStart.
                  RunMethod (NewAPIClient w token url) ''auth.test'' = Inr authBuf \<and>
                  RTMStart (NewAPIClient w token url) = Inr rtmStart \<and>
                  Connect_result rtmStart = None \<longrightarrow>
                  (\<exists>s w'. newIface url token channelName w = (Inr s, w') \<and> channelID s = ID c)))
       \<and> (\<forall>err w'. newIface url token channelName w = (Inl err, w') \<longrightarrow>
             NewReader url token channelName w = (Inl err, w') \<and>
             NewWriter url token channelName w = (Inl err, w') \<and>
             NewReaderWriter url token channelName w = (Inl err, w'))"
proof
  show "case find (\<lambda>c. Name c = channelName) channels of
           None \<Rightarrow>
             newIface url token channelName w =
               (Inl (Errorf (''cannot find channel '' @ channelName)), w)
         | Some c \<Rightarrow>
             if ID c = [] then
               newIface url token channelName w =
                 (Inl (Errorf (''cannot find channel '' @ channelName)), w)
             else
               (\<forall>s w'. newIface url token channelName w = (Inr s, w') \<longrightarrow> channelID s = ID c) \<and>
               (\<forall>authBuf rtmStart.
                  RunMethod (NewAPIClient w token url) ''auth.test'' = Inr authBuf \<and>
                  RTMStart (NewAPIClient w token url) = Inr rtmStart \<and>
                  Connect_result rtmStart = None \<longrightarrow>
                  (\<exists>s w'. newIface url token channelName w = (Inr s, w') \<and> channelID s = ID c))"
    using assms
    by (auto simp: newIface_def scan_channels_find Let_def NewRTMBroker_def RTMBroker_Connect_def
        split: option.splits sum.splits prod.splits)
next
  show "\<forall>err w'. newIface url token channelName w = (Inl err, w') \<longrightarrow>
             NewReader url token channelName w = (Inl err, w') \<and>
             NewWriter url token channelName w = (Inl err, w') \<and>
             NewReaderWriter url token channelName w = (Inl err, w')"
    by (simp add: NewReader_def NewWriter_def NewReaderWriter_def)
qed

text \<open>
  In the example world the name general resolves to the first of its two entries, and
  the name nowhere to none.
\<close>

theorem newIface_resolves_channel_witness:
  "ChannelsList (NewAPIClient (example_world (example_api (example_session [] False))) ''token'' []) =
     Inr example_channels
   \<and> find (\<lambda>c. Name c = ''general'') example_channels = Some \<lparr>Name = ''general'', ID = ''general-id''\<rparr>
   \<and> (\<exists>s w'. newIface [] ''token'' ''general'' (example_world (example_api (example_session [] False))) =
               (Inr s, w')
        \<and> channelID s = ''general-id'')
   \<and> find (\<lambda>c. Name c = ''nowhere'') example_channels = None
   \<and> newIface [] ''token'' ''nowhere'' (example_world (example_api (example_session [] False))) =
       (Inl (Errorf ''cannot find channel nowhere''),
        example_world (example_api (example_session [] False)))
   \<and> NewReaderWriter [] ''token'' ''nowhere'' (example_world (example_api (example_session [] False))) =
       (Inl (Errorf ''cannot find channel nowhere''),
        example_world (example_api (example_session [] False)))"
  using newIface_resolves_channel
          [of "example_world (example_api (example_session [] False))" "''token''" "[]"
              example_channels "''general''"]
        newIface_resolves_channel
          [of "example_world (example_api (example_session [] False))" "''token''" "[]"
              example_channels "''nowhere''"]
  by (simp add: example_world_def example_client_def example_api_def example_session_def
        example_channels_def example_decoder_def)

text \<open>
  C7 as stated fails where the first entry with the name has the empty identifier: the
  entry matches, and construction reports that the channel cannot be found.
\<close>

theorem empty_identifier_not_bound:
  "find (\<lambda>c. Name c = ''general'') [\<lparr>Name = ''general'', ID = []\<rparr>] =
     Some \<lparr>Name = ''general'', ID = []\<rparr>
   \<and> newIface [] ''token'' ''general''
        (example_world
           (example_client [\<lparr>Name = ''general'', ID = []\<rparr>] (Inr ''U1'') (example_session [] False))) =
      (Inl (Errorf ''cannot find channel general''),
       example_world
         (example_client [\<lparr>Name = ''general'', ID = []\<rparr>] (Inr ''U1'') (example_session [] False)))"
  by (simp add: newIface_def example_world_def example_client_def)

text \<open>
  C6. Where the identity call fails, \<^verbatim>\<open>New\<close> of the first version panics with the
  error, while \<^verbatim>\<open>NewReader\<close> returns it.
\<close>

theorem Slack_New_panics_on_identity_failure:
  "Slack_New [] ''token'' ''general''
     (example_world
        (example_client example_channels (Inl (Failure ''invalid_auth'')) (example_session [] False))) =
     (Panics (Panic_error (Failure ''invalid_auth'')),
      example_world
        (example_client example_channels (Inl (Failure ''invalid_auth'')) (example_session [] False)))
   \<and> NewReader [] ''token'' ''general''
     (example_world
        (example_client example_channels (Inl (Failure ''invalid_auth'')) (example_session [] False))) =
     (Inl (Failure ''invalid_auth''),
      example_world
        (example_client example_channels (Inl (Failure ''invalid_auth'')) (example_session [] False)))"
  by (simp add: Slack_New_def Slack_init_def NewReader_def newIface_def example_world_def
        example_client_def example_channels_def Let_def)

lemma newIface_identity_failure:
  assumes "ChannelsList (NewAPIClient w token url) = Inr channels"
    and "scan_channels channels channelName [] \<noteq> []"
    and "RunMethod (NewAPIClient w token url) ''auth.test'' = Inl err"
  shows "newIface url token channelName w = (Inl err, w)"
    and "NewReader url token channelName w = (Inl err, w)"
    and "NewWriter url token channelName w = (Inl err, w)"
    and "NewReaderWriter url token channelName w = (Inl err, w)"
    and "Slack_New url token channelName w = (Panics (Panic_error err), w)"
  using assms
  by (simp_all add: newIface_def NewReader_def NewWriter_def NewReaderWriter_def Slack_New_def
        Slack_init_def Let_def)

section \<open>The self-echo filter\<close>

lemma self_echo_filtered:
  assumes "Reader_pipe s = Some p" "Reader_task s = Receiving"
    "Events (brokers w (broker (Reader_common s))) = ev # es"
    "event_Type ev = ''message''" "event_Message ev = (Some m, None)"
    "User m = selfUserID (Reader_common s)"
  shows "Reader_reader s w = Some (s, drained (Reader_common s) w es)"
  using assms
  by (simp add: Reader_reader_def reader_step_def receive_def reader_body_def Let_def drained_def)

lemma other_user_delivered:
  assumes "Reader_pipe s = Some p" "Reader_task s = Receiving" "\<not> pdone p"
    "Events (brokers w (broker (Reader_common s))) = ev # es"
    "event_Type ev = ''message''" "event_Message ev = (Some m, None)"
    "Channel m = channelID (Reader_common s)" "User m \<noteq> selfUserID (Reader_common s)"
  shows "Reader_reader s w =
           Some (s\<lparr>Reader_pipe := Some (p\<lparr>wr_data := Text m @ [CHR 0x0A]\<rparr>), Reader_task := Writing\<rparr>,
                 drained (Reader_common s) w es)"
  using assms
  by (simp add: Reader_reader_def reader_step_def receive_def reader_body_def
        PipeWriter_Write_start_def Let_def drained_def)

text \<open>
  C10, as amended. When the channel resolves, the identity call succeeds, the decoder
  returns an error on its body, and the session starts and connects, then construction
  succeeds and the binding's own identity is the user identifier the decoder left in
  the struct: the empty string when it stored none. The loop of a reader with this
  binding drops every parsed message event whose user identifier is that identity, and
  on an open pipe it writes the line of every parsed message event on the bound
  channel whose user identifier is another one.
\<close>

theorem decode_error_keeps_stored_identity:
  assumes "ChannelsList (NewAPIClient w token url) = Inr channels"
    and "find (\<lambda>c. Name c = channelName) channels = Some ch" and "ID ch \<noteq> []"
    and "RunMethod (NewAPIClient w token url) ''auth.test'' = Inr authBuf"
    and "json_Unmarshal w authBuf = (uid, Some err)"
    and "RTMStart (NewAPIClient w token url) = Inr rtmStart"
    and "Connect_result rtmStart = None"
  shows "\<exists>c w'. newIface url token channelName w = (Inr c, w') \<and>
    selfUserID c = uid \<and> channelID c = ID ch \<and>
    (\<forall>s w2 p ev es m.
       Reader_common s = c \<and> Reader_pipe s = Some p \<and> Reader_task s = Receiving \<and>
       Events (brokers w2 (broker c)) = ev # es \<and>
       event_Type ev = ''message'' \<and> event_Message ev = (Some m, None) \<longrightarrow>
       (User m = uid \<longrightarrow> Reader_reader s w2 = Some (s, drained c w2 es)) \<and>
       (User m \<noteq> uid \<and> Channel m = ID ch \<and> \<not> pdone p \<longrightarrow>
          Reader_reader s w2 =
            Some (s\<lparr>Reader_pipe := Some (p\<lparr>wr_data := Text m @ [CHR 0x0A]\<rparr>),
                    Reader_task := Writing\<rparr>,
                  drained c w2 es)))"
proof -
  let ?c = "\<lparr>channelID = ID ch, selfUserID = uid, client = NewAPIClient w token url,
             broker = next_broker w\<rparr>"
  have 1: "newIface url token channelName w = (Inr ?c, snd (NewRTMBroker rtmStart w))"
    using assms
    by (simp add: newIface_def scan_channels_find Let_def NewRTMBroker_def RTMBroker_Connect_def)
  have 2: "\<forall>s w2 p ev es m.
       Reader_common s = ?c \<and> Reader_pipe s = Some p \<and> Reader_task s = Receiving \<and>
       Events (brokers w2 (broker ?c)) = ev # es \<and>
       event_Type ev = ''message'' \<and> event_Message ev = (Some m, None) \<longrightarrow>
       (User m = uid \<longrightarrow> Reader_reader s w2 = Some (s, drained ?c w2 es)) \<and>
       (User m \<noteq> uid \<and> Channel m = ID ch \<and> \<not> pdone p \<longrightarrow>
          Reader_reader s w2 =
            Some (s\<lparr>Reader_pipe := Some (p\<lparr>wr_data := Text m @ [CHR 0x0A]\<rparr>),
                    Reader_task := Writing\<rparr>,
                  drained ?c w2 es))"
  proof (intro allI impI conjI)
    fix s :: Reader and w2 :: world and p :: pipe and ev :: RTMEvent
      and es :: "RTMEvent list" and m :: RTMMessage
    assume h: "Reader_common s = ?c \<and> Reader_pipe s = Some p \<and> Reader_task s = Receiving \<and>
       Events (brokers w2 (broker ?c)) = ev # es \<and>
       event_Type ev = ''message'' \<and> event_Message ev = (Some m, None)"
    {
      assume "User m = uid"
      with h show "Reader_reader s w2 = Some (s, drained ?c w2 es)"
        using self_echo_filtered [of s p w2 ev es m] by simp
    }
    {
      assume "User m \<noteq> uid \<and> Channel m = ID ch \<and> \<not> pdone p"
      with h show "Reader_reader s w2 =
            Some (s\<lparr>Reader_pipe := Some (p\<lparr>wr_data := Text m @ [CHR 0x0A]\<rparr>),
                    Reader_task := Writing\<rparr>,
                  drained ?c w2 es)"
        using other_user_delivered [of s p w2 ev es m] by simp
    }
  qed
  from 1 2 show ?thesis
    by (intro exI [of _ ?c] exI [of _ "snd (NewRTMBroker rtmStart w)"]) simp
qed

text \<open>
  In the example world with the body \<open>''<html>''\<close>, which the decoder rejects without
  storing anything, the binding's identity is empty; a message without a user
  identifier is dropped and a message of user U2 is written.
\<close>

theorem decode_error_keeps_stored_identity_witness:
  "\<exists>c w'. newIface [] ''token'' ''general''
       (example_world (example_client example_channels (Inr ''<html>'') (example_session [] False))) =
       (Inr c, w')
     \<and> selfUserID c = []
     \<and> Reader_reader \<lparr>Reader_common = c, Reader_pipe = Some io_Pipe, Reader_task = Receiving\<rparr>
          (drained c w' [message_event ''general-id'' [] ''hello''])
        = Some (\<lparr>Reader_common = c, Reader_pipe = Some io_Pipe, Reader_task = Receiving\<rparr>,
                drained c w' [])
     \<and> Reader_reader \<lparr>Reader_common = c, Reader_pipe = Some io_Pipe, Reader_task = Receiving\<rparr>
          (drained c w' [message_event ''general-id'' ''U2'' ''hello''])
        = Some (\<lparr>Reader_common = c,
                 Reader_pipe = Some (io_Pipe\<lparr>wr_data := ''hello'' @ [CHR 0x0A]\<rparr>),
                 Reader_task = Writing\<rparr>,
                drained c w' [])"
proof -
  let ?w = "example_world (example_client example_channels (Inr ''<html>'') (example_session [] False))"
  let ?m = "\<lambda>u. \<lparr>Type = ''message'', Text = ''hello'', Channel = ''general-id'', User = u\<rparr>"
  have "ChannelsList (NewAPIClient ?w ''token'' []) = Inr example_channels"
    and "find (\<lambda>c. Name c = ''general'') example_channels = Some \<lparr>Name = ''general'', ID = ''general-id''\<rparr>"
    and "ID \<lparr>Name = ''general'', ID = ''general-id''\<rparr> \<noteq> []"
    and "RunMethod (NewAPIClient ?w ''token'' []) ''auth.test'' = Inr ''<html>''"
    and "json_Unmarshal ?w ''<html>'' = ([], Some (Failure ''invalid character''))"
    and "RTMStart (NewAPIClient ?w ''token'' []) = Inr (example_session [] False)"
    and "Connect_result (example_session [] False) = None"
    by (simp_all add: example_world_def example_client_def example_session_def
          example_channels_def example_decoder_def)
  from decode_error_keeps_stored_identity [OF this]
  obtain c w' where c: "newIface [] ''token'' ''general'' ?w = (Inr c, w')" "selfUserID c = []"
    and f: "\<forall>s w2 p ev es m.
       Reader_common s = c \<and> Reader_pipe s = Some p \<and> Reader_task s = Receiving \<and>
       Events (brokers w2 (broker c)) = ev # es \<and>
       event_Type ev = ''message'' \<and> event_Message ev = (Some m, None) \<longrightarrow>
       (User m = [] \<longrightarrow> Reader_reader s w2 = Some (s, drained c w2 es)) \<and>
       (User m \<noteq> [] \<and> Channel m = ID \<lparr>Name = ''general'', ID = ''general-id''\<rparr> \<and> \<not> pdone p \<longrightarrow>
          Reader_reader s w2 =
            Some (s\<lparr>Reader_pipe := Some (p\<lparr>wr_data := Text m @ [CHR 0x0A]\<rparr>),
                    Reader_task := Writing\<rparr>,
                  drained c w2 es))"
    by blast
  let ?s = "\<lparr>Reader_common = c, Reader_pipe = Some io_Pipe, Reader_task = Receiving\<rparr>"
  have 1: "Reader_reader ?s (drained c w' [message_event ''general-id'' [] ''hello''])
        = Some (?s, drained c w' [])"
    using f [rule_format, of ?s io_Pipe "drained c w' [message_event ''general-id'' [] ''hello'']"
               "message_event ''general-id'' [] ''hello''" "[]" "?m []"]
    by (simp add: message_event_def drained_def)
  have 2: "Reader_reader ?s (drained c w' [message_event ''general-id'' ''U2'' ''hello''])
        = Some (\<lparr>Reader_common = c,
                 Reader_pipe = Some (io_Pipe\<lparr>wr_data := ''hello'' @ [CHR 0x0A]\<rparr>),
                 Reader_task = Writing\<rparr>,
                drained c w' [])"
    using f [rule_format, of ?s io_Pipe "drained c w' [message_event ''general-id'' ''U2'' ''hello'']"
               "message_event ''general-id'' ''U2'' ''hello''" "[]" "?m ''U2''"]
    by (simp add: message_event_def drained_def io_Pipe_def)
  from c 1 2 show ?thesis by blast
qed

text \<open>
  C10 as stated fails where the decoder returns an error after it has stored an
  identifier: construction records U1, not the empty string, and a message without a
  user identifier on the bound channel is not suppressed but written to the pipe.
\<close>

theorem stored_identity_survives_decode_error:
  "(case newIface [] ''token'' ''general''
           ((example_world (example_api (example_session [] False)))
              \<lparr>json_Unmarshal := stumbling_decoder\<rparr>) of
      (Inr c, w') \<Rightarrow>
        snd (stumbling_decoder ''U1'') \<noteq> None
        \<and> selfUserID c = ''U1''
        \<and> (case Reader_reader \<lparr>Reader_common = c, Reader_pipe = Some io_Pipe, Reader_task = Receiving\<rparr>
                   (drained c w' [message_event ''general-id'' [] ''hello'']) of
             Some (s', w'') \<Rightarrow> Reader_task s' = Writing \<and> in_flight s' = ''hello'' @ [CHR 0x0A]
           | None \<Rightarrow> False)
    | (Inl e, w') \<Rightarrow> False)"
  by (simp add: newIface_def NewRTMBroker_def RTMBroker_Connect_def example_world_def
        example_api_def example_client_def example_channels_def example_session_def
        stumbling_decoder_def Let_def Reader_reader_def reader_step_def receive_def
        reader_body_def PipeWriter_Write_start_def io_Pipe_def drained_def message_event_def
        in_flight_def)

section \<open>Writing\<close>







section \<open>Closing\<close>

lemma NewReaderWriter_shares_session:
  "NewReaderWriter url token channel w = (Inr s, w1) \<Longrightarrow>
   Reader_common (ReaderWriter_Reader s) = ReaderWriter_common s \<and>
   Reader_pipe (ReaderWriter_Reader s) = Some io_Pipe"
  by (auto simp: NewReaderWriter_def Reader_init_def Let_def split: prod.splits sum.splits)

lemma ReaderWriter_Close_closes_twice:
  assumes "Reader_common (ReaderWriter_Reader s) = ReaderWriter_common s"
    and "Reader_pipe (ReaderWriter_Reader s) = Some p"
  shows "case ReaderWriter_Close s w of
           (r, s', w') \<Rightarrow>
             Close_calls (brokers w' (broker (ReaderWriter_common s))) =
               Close_calls (brokers w (broker (ReaderWriter_common s))) + 2
             \<and> r = Returns (ErrSet_ReturnValue
                   [Close_result (brokers w (broker (ReaderWriter_common s)))
                      (Close_calls (brokers w (broker (ReaderWriter_common s)))),
                    Close_result (brokers w (broker (ReaderWriter_common s)))
                      (Suc (Close_calls (brokers w (broker (ReaderWriter_common s)))))])"
  using assms
  by (simp add: ReaderWriter_Close_def Reader_Close_def readerWriterCommon_Close_def
        RTMBroker_Close_def Let_def)

text \<open>
  C2. One call of \<^verbatim>\<open>ReaderWriter.Close\<close> closes the session twice: once inside
  \<^verbatim>\<open>Reader.Close\<close> and once more itself. With a session that reports an error when it
  is closed again, the call returns a non-nil error set although the pipe and the
  session were closed without error.
\<close>

theorem ReaderWriter_Close_closes_session_twice:
  "(case NewReaderWriter [] ''token'' ''general'' (example_world (example_api closing_session)) of
      (Inr s, w1) \<Rightarrow>
        (case ReaderWriter_Close s w1 of
           (r, s', w2) \<Rightarrow>
             Close_calls (brokers w1 (broker (ReaderWriter_common s))) = 0
             \<and> Close_calls (brokers w2 (broker (ReaderWriter_common s))) = 2
             \<and> r = Returns (Some (ErrSet [None, Some (Failure ''use of closed network connection'')])))
    | (Inl err, w1) \<Rightarrow> False)"
  by (simp add: NewReaderWriter_def newIface_def NewRTMBroker_def RTMBroker_Connect_def
        Reader_init_def ReaderWriter_Close_def Reader_Close_def readerWriterCommon_Close_def
        RTMBroker_Close_def ErrSet_ReturnValue_def closing_session_def example_world_def
        example_client_def example_api_def example_session_def example_channels_def
        example_decoder_def Let_def)

subsection \<open>Closing again\<close>

text \<open>
  No adapter records that it has been closed: a second close runs the same calls. On
  the pipe they change nothing. The session's \<^verbatim>\<open>Close\<close> is called again, and what the
  adapter returns is what the session answers to the repeated call: \<^verbatim>\<open>Writer.Close\<close>
  and \<^verbatim>\<open>Reader.Close\<close> return it, \<^verbatim>\<open>ReaderWriter.Close\<close> collects the answers to the
  third and the fourth call, and \<^verbatim>\<open>Slack.Close\<close> drops it and returns nil.
\<close>

lemma pipe_Close_idempotent:
  "PipeWriter_Close (PipeReader_Close (PipeWriter_Close (PipeReader_Close p))) =
   PipeWriter_Close (PipeReader_Close p)"
  by (simp add: PipeWriter_Close_def PipeReader_Close_def PipeWriter_CloseWithError_def
        PipeReader_CloseWithError_def onceError_Store_def split: option.splits)

lemma Writer_Close_twice:
  assumes "Writer_Close s w = (e1, w1)" and "Writer_Close s w1 = (e2, w2)"
  shows "e1 = Close_result (brokers w (broker (Writer_common s)))
                (Close_calls (brokers w (broker (Writer_common s))))
       \<and> e2 = Close_result (brokers w (broker (Writer_common s)))
                (Suc (Close_calls (brokers w (broker (Writer_common s)))))
       \<and> Close_calls (brokers w2 (broker (Writer_common s))) =
           Close_calls (brokers w (broker (Writer_common s))) + 2"
  using assms
  by (auto simp: Writer_Close_def readerWriterCommon_Close_def RTMBroker_Close_def Let_def)

lemma Reader_Close_twice:
  assumes "Reader_pipe s = Some p"
    and "Reader_Close s w = (r1, s1, w1)" and "Reader_Close s1 w1 = (r2, s2, w2)"
  shows "r1 = Returns (Close_result (brokers w (broker (Reader_common s)))
                (Close_calls (brokers w (broker (Reader_common s)))))
       \<and> r2 = Returns (Close_result (brokers w (broker (Reader_common s)))
                (Suc (Close_calls (brokers w (broker (Reader_common s))))))
       \<and> s2 = s1"
  using assms pipe_Close_idempotent [of p]
  by (auto simp: Reader_Close_def readerWriterCommon_Close_def RTMBroker_Close_def Let_def)

lemma ReaderWriter_Close_twice:
  assumes "Reader_common (ReaderWriter_Reader s) = ReaderWriter_common s"
    and "Reader_pipe (ReaderWriter_Reader s) = Some p"
    and "ReaderWriter_Close s w = (r1, s1, w1)" and "ReaderWriter_Close s1 w1 = (r2, s2, w2)"
  shows "r2 = Returns (ErrSet_ReturnValue
                   [Close_result (brokers w (broker (ReaderWriter_common s)))
                      (Close_calls (brokers w (broker (ReaderWriter_common s))) + 2),
                    Close_result (brokers w (broker (ReaderWriter_common s)))
                      (Close_calls (brokers w (broker (ReaderWriter_common s))) + 3)])
       \<and> Close_calls (brokers w2 (broker (ReaderWriter_common s))) =
           Close_calls (brokers w (broker (ReaderWriter_common s))) + 4"
  using assms
  by (auto simp: ReaderWriter_Close_def Reader_Close_def readerWriterCommon_Close_def
        RTMBroker_Close_def Let_def eval_nat_numeral)

lemma Slack_Close_twice:
  assumes "Slack_Close s w = (e1, s1, w1)" and "Slack_Close s1 w1 = (e2, s2, w2)"
  shows "e1 = None \<and> e2 = None \<and> s2 = s1"
  using assms
  by (auto simp: Slack_Close_def Let_def pipe_Close_idempotent split: option.splits prod.splits)

section \<open>The read path\<close>

lemma drained_drained: "drained c (drained c w es) es' = drained c w es'"
  by (simp add: drained_def)

lemma drained_Events: "Events (brokers (drained c w es) (broker c)) = es"
  by (simp add: drained_def)

lemma reader_body_parsed:
  assumes "parses ev" "\<not> pdone p"
  shows "reader_body cid uid ev p =
           (if spec_line cid uid ev = [] then (p, Receiving)
            else (p\<lparr>wr_data := spec_line cid uid ev\<rparr>, Writing))"
  using assms
  by (auto simp: reader_body_def parses_def spec_line_def PipeWriter_Write_start_def
      split: option.splits prod.splits if_splits)

lemma step_preserves:
  assumes "healthy s w" "Reader_reader s w = Some (s', w')"
  shows "healthy s' w' \<and> to_come s' w' = to_come s w \<and> Reader_common s' = Reader_common s"
proof -
  obtain p where p: "Reader_pipe s = Some p" "\<not> pdone p"
    and ev: "list_all parses (Events (brokers w (broker (Reader_common s))))"
    and t: "Reader_task s = Receiving \<and> wr_data p = [] \<or> Reader_task s = Writing"
    using assms(1) by (auto simp: healthy_def split: option.splits)
  show ?thesis
  proof (cases "Reader_task s = Writing")
    case True
    with assms(2) p show ?thesis
      using ev
      by (auto simp: Reader_reader_def reader_step_def PipeWriter_Write_wait_def Let_def healthy_def
            to_come_def in_flight_def split: option.splits if_splits)
  next
    case False
    with t have r: "Reader_task s = Receiving" "wr_data p = []" by auto
    show ?thesis
    proof (cases "Events (brokers w (broker (Reader_common s)))")
      case Nil
      with assms(2) p r show ?thesis
        by (auto simp: Reader_reader_def reader_step_def receive_def reader_body_def
              zero_RTMEvent_def
              Let_def healthy_def to_come_def in_flight_def spec_read_path_def split: if_splits)
    next
      case (Cons e es)
      with ev have "parses e" "list_all parses es" by auto
      with assms(2) p r Cons show ?thesis
        by (auto simp: Reader_reader_def reader_step_def receive_def reader_body_parsed
              Let_def healthy_def to_come_def in_flight_def spec_read_path_def split: if_splits)
    qed
  qed
qed

lemma read_preserves:
  assumes "healthy s w" "Reader_Read s n = (r, s')"
  shows "healthy s' w \<and> Reader_common s' = Reader_common s \<and>
         (case r of Returns (bs, err) \<Rightarrow> bs @ to_come s' w = to_come s w
          | Panics x \<Rightarrow> to_come s' w = to_come s w
          | Blocks \<Rightarrow> to_come s' w = to_come s w)"
  using assms
  by (auto simp: healthy_def Reader_Read_def PipeReader_Read_def to_come_def in_flight_def
        split: option.splits if_splits)

lemma run_invariant:
  "healthy s w \<Longrightarrow> run acts s w out = (s', w', out') \<Longrightarrow>
   healthy s' w' \<and> out' @ to_come s' w' = out @ to_come s w \<and> Reader_common s' = Reader_common s"
proof (induction acts arbitrary: s w out)
  case Nil
  then show ?case by simp
next
  case (Cons act acts)
  show ?case
  proof (cases act)
    case Step
    show ?thesis
    proof (cases "Reader_reader s w")
      case None
      with Cons Step show ?thesis by simp
    next
      case (Some sw)
      obtain s1 w1 where sw: "sw = (s1, w1)" by (cases sw)
      from step_preserves [OF Cons.prems(1) Some [unfolded sw]]
      have h: "healthy s1 w1" "to_come s1 w1 = to_come s w" "Reader_common s1 = Reader_common s"
        by auto
      from Cons.prems(2) Step Some sw have "run acts s1 w1 out = (s', w', out')" by simp
      from Cons.IH [OF h(1) this] h show ?thesis by simp
    qed
  next
    case (Read n)
    obtain r s1 where rd: "Reader_Read s n = (r, s1)" by (cases "Reader_Read s n")
    from read_preserves [OF Cons.prems(1) rd]
    have h: "healthy s1 w" "Reader_common s1 = Reader_common s"
      and c: "case r of Returns (bs, err) \<Rightarrow> bs @ to_come s1 w = to_come s w
          | Panics x \<Rightarrow> to_come s1 w = to_come s w
          | Blocks \<Rightarrow> to_come s1 w = to_come s w" by auto
    show ?thesis
    proof (cases r)
      case (Returns be)
      obtain bs err where be: "be = (bs, err)" by (cases be)
      from Cons.prems(2) Read rd Returns be have "run acts s1 w (out @ bs) = (s', w', out')" by simp
      from Cons.IH [OF h(1) this] h c Returns be show ?thesis by simp
    next
      case (Panics x)
      from Cons.prems(2) Read rd Panics have "run acts s1 w out = (s', w', out')" by simp
      from Cons.IH [OF h(1) this] h c Panics show ?thesis by simp
    next
      case Blocks
      from Cons.prems(2) Read rd Blocks have "run acts s1 w out = (s', w', out')" by simp
      from Cons.IH [OF h(1) this] h c Blocks show ?thesis by simp
    qed
  qed
qed

lemma run_append: "run (xs @ ys) s w out = (case run xs s w out of (s', w', out') \<Rightarrow> run ys s' w' out')"
  by (induction xs s w out rule: run.induct) (auto split: option.splits prod.splits outcome.splits)

lemma attentive_event:
  assumes "Reader_pipe s = Some p" "\<not> pdone p" "wr_data p = []" "Reader_task s = Receiving"
    and "Events (brokers w (broker (Reader_common s))) = e # es" "parses e"
  shows "run (if spec_line (channelID (Reader_common s)) (selfUserID (Reader_common s)) e = [] then [Step]
              else [Step, Read (length (spec_line (channelID (Reader_common s)) (selfUserID (Reader_common s)) e)), Step])
           s w out =
         (s, drained (Reader_common s) w es,
          out @ spec_line (channelID (Reader_common s)) (selfUserID (Reader_common s)) e)"
proof -
  let ?c = "Reader_common s"
  let ?l = "spec_line (channelID ?c) (selfUserID ?c) e"
  have same: "s\<lparr>Reader_pipe := Some p, Reader_task := Receiving\<rparr> = s"
    using assms(1,4) by simp
  show ?thesis
  proof (cases "?l = []")
    case True
    have "Reader_reader s w = Some (s, drained ?c w es)"
      using assms True same
      by (simp add: Reader_reader_def reader_step_def receive_def reader_body_parsed Let_def
            drained_def)
    with True show ?thesis by simp
  next
    case False
    let ?s1 = "s\<lparr>Reader_pipe := Some (p\<lparr>wr_data := ?l\<rparr>), Reader_task := Writing\<rparr>"
    have 1: "Reader_reader s w = Some (?s1, drained ?c w es)"
      using assms False
      by (simp add: Reader_reader_def reader_step_def receive_def reader_body_parsed Let_def
            drained_def)
    have 2: "Reader_Read ?s1 (length ?l) =
               (Returns (?l, None), s\<lparr>Reader_pipe := Some p, Reader_task := Writing\<rparr>)"
      using assms False by (simp add: Reader_Read_def PipeReader_Read_def)
    have 3: "Reader_reader (s\<lparr>Reader_pipe := Some p, Reader_task := Writing\<rparr>) (drained ?c w es) =
               Some (s, drained ?c w es)"
      using assms same
      by (simp add: Reader_reader_def reader_step_def PipeWriter_Write_wait_def Let_def drained_def)
    from False 1 2 3 show ?thesis by simp
  qed
qed

lemma attentive_run:
  assumes "Reader_pipe s = Some p" "\<not> pdone p" "wr_data p = []" "Reader_task s = Receiving"
  shows "Events (brokers w (broker (Reader_common s))) = es \<Longrightarrow> list_all parses es \<Longrightarrow>
         run (attentive (channelID (Reader_common s)) (selfUserID (Reader_common s)) es) s w out =
           (s, drained (Reader_common s) w [],
            out @ spec_read_path (channelID (Reader_common s)) (selfUserID (Reader_common s)) es)"
proof (induction es arbitrary: w out)
  case Nil
  then have "(brokers w (broker (Reader_common s)))\<lparr>Events := []\<rparr> = brokers w (broker (Reader_common s))"
    by (cases "brokers w (broker (Reader_common s))") simp
  then have "drained (Reader_common s) w [] = w"
    by (simp add: drained_def)
  then show ?case by (simp add: attentive_def spec_read_path_def)
next
  case (Cons e es)
  then have pe: "parses e" "list_all parses es" by auto
  let ?c = "Reader_common s"
  have ev: "Events (brokers (drained ?c w es) (broker ?c)) = es" by (rule drained_Events)
  have att: "attentive (channelID ?c) (selfUserID ?c) (e # es) =
     (if spec_line (channelID ?c) (selfUserID ?c) e = [] then [Step]
      else [Step, Read (length (spec_line (channelID ?c) (selfUserID ?c) e)), Step])
     @ attentive (channelID ?c) (selfUserID ?c) es"
    by (simp add: attentive_def)
  show ?case
    unfolding att run_append
    using attentive_event [OF assms Cons.prems(1) pe(1), of out] Cons.IH [OF ev pe(2)]
    by (simp add: spec_read_path_def drained_drained)
qed

text \<open>
  C1, as amended. Take a reader whose pipe is open with nothing in flight and whose
  goroutine is at the receive, and a sequence of inbound events in which every event
  of kind message parses. Under every schedule of goroutine steps and foreground
  reads, the bytes read so far, then the bytes in flight, then the lines of the events
  not yet received make up exactly the concatenation, in arrival order, of the text
  and one newline of each message event on the bound channel from another user:
  nothing else reaches the read path, and nothing is lost or reordered. Under the
  schedule of a foreground that reads each line as it is written, the reads return
  the whole concatenation, the stream is drained and the reader is as it was.
\<close>

theorem read_path_yields_lines:
  assumes "Reader_pipe s = Some p" "\<not> pdone p" "wr_data p = []" "Reader_task s = Receiving"
    and "Events (brokers w (broker (Reader_common s))) = es" "list_all parses es"
  shows "(\<forall>acts s' w' out. run acts s w [] = (s', w', out) \<longrightarrow>
            out @ in_flight s' @
              spec_read_path (channelID (Reader_common s)) (selfUserID (Reader_common s))
                (Events (brokers w' (broker (Reader_common s)))) =
            spec_read_path (channelID (Reader_common s)) (selfUserID (Reader_common s)) es)
       \<and> run (attentive (channelID (Reader_common s)) (selfUserID (Reader_common s)) es) s w [] =
           (s, w\<lparr>brokers := (brokers w)(broker (Reader_common s) :=
                   (brokers w (broker (Reader_common s)))\<lparr>Events := []\<rparr>)\<rparr>,
            spec_read_path (channelID (Reader_common s)) (selfUserID (Reader_common s)) es)"
proof
  have h: "healthy s w" using assms by (simp add: healthy_def)
  have t: "to_come s w = spec_read_path (channelID (Reader_common s)) (selfUserID (Reader_common s)) es"
    using assms by (simp add: to_come_def in_flight_def)
  show "\<forall>acts s' w' out. run acts s w [] = (s', w', out) \<longrightarrow>
            out @ in_flight s' @
              spec_read_path (channelID (Reader_common s)) (selfUserID (Reader_common s))
                (Events (brokers w' (broker (Reader_common s)))) =
            spec_read_path (channelID (Reader_common s)) (selfUserID (Reader_common s)) es"
  proof (intro allI impI)
    fix acts s' w' out
    assume "run acts s w [] = (s', w', out)"
    from run_invariant [OF h this] t show "out @ in_flight s' @
              spec_read_path (channelID (Reader_common s)) (selfUserID (Reader_common s))
                (Events (brokers w' (broker (Reader_common s)))) =
            spec_read_path (channelID (Reader_common s)) (selfUserID (Reader_common s)) es"
      by (auto simp: to_come_def)
  qed
next
  from attentive_run [OF assms(1-4) assms(5) assms(6), of "[]"]
  show "run (attentive (channelID (Reader_common s)) (selfUserID (Reader_common s)) es) s w [] =
           (s, w\<lparr>brokers := (brokers w)(broker (Reader_common s) :=
                   (brokers w (broker (Reader_common s)))\<lparr>Events := []\<rparr>)\<rparr>,
            spec_read_path (channelID (Reader_common s)) (selfUserID (Reader_common s)) es)"
    by (simp add: drained_def)
qed

text \<open>
  The scenario of the specification, followed by a message on another channel and an
  event of another kind: the read path yields hello and a newline.
\<close>

theorem read_path_yields_lines_witness:
  "list_all parses scenario_events
   \<and> run (attentive ''general-id'' ''U1'' scenario_events)
        (example_Reader (example_session scenario_events False))
        (example_connected (example_session scenario_events False)) [] =
      (example_Reader (example_session scenario_events False),
       drained (example_common (example_session scenario_events False))
         (example_connected (example_session scenario_events False)) [],
       ''hello'' @ [CHR 0x0A])"
proof -
  let ?ses = "example_session scenario_events False"
  have h: "Reader_pipe (example_Reader ?ses) = Some io_Pipe" "\<not> pdone io_Pipe" "wr_data io_Pipe = []"
    "Reader_task (example_Reader ?ses) = Receiving"
    "Events (brokers (example_connected ?ses) (broker (Reader_common (example_Reader ?ses)))) =
       scenario_events"
    "list_all parses scenario_events"
    by (simp_all add: example_world_def example_client_def example_api_def example_session_def
          example_channels_def example_decoder_def example_common_def example_Reader_def
          example_connected_def io_Pipe_def parses_def message_event_def scenario_events_def)
  have c: "channelID (example_common ?ses) = ''general-id''"
    "selfUserID (example_common ?ses) = ''U1''"
    "Reader_common (example_Reader ?ses) = example_common ?ses"
    by (simp_all add: example_Reader_def example_common_def)
  have l: "spec_read_path ''general-id'' ''U1'' scenario_events = ''hello'' @ [CHR 0x0A]"
    by (simp add: spec_read_path_def spec_line_def message_event_def scenario_events_def)
  from read_path_yields_lines [OF h] h(6) show ?thesis
    by (simp add: c l drained_def)
qed

text \<open>
  C1 as stated fails on a sequence with a message event that does not parse: the later
  message hello, on the bound channel and from another user, never reaches the read
  path, whether \<^verbatim>\<open>Message()\<close> gave a nil message or a zero one with its error.
\<close>

theorem malformed_event_silences_read_path:
  "NewReader [] ''token'' ''general'' (example_world (example_api (example_session (truncated_events None) False))) =
     (Inr (example_Reader (example_session (truncated_events None) False)), example_connected (example_session (truncated_events None) False))
   \<and> (spec_read_path ''general-id'' ''U1'' (truncated_events None) = ''hello'' @ [CHR 0x0A]
   \<and> snd (snd (run [Step, Read 6, Step, Read 6, Step]
                 (example_Reader (example_session (truncated_events None) False))
                 (example_connected (example_session (truncated_events None) False)) [])) = []
   \<and> spec_read_path ''general-id'' ''U1'' (truncated_events (Some zero_RTMMessage)) = ''hello'' @ [CHR 0x0A]
   \<and> snd (snd (run [Step, Read 6, Step, Read 6, Step]
                 (example_Reader (example_session (truncated_events (Some zero_RTMMessage)) False))
                 (example_connected (example_session (truncated_events (Some zero_RTMMessage)) False)) [])) = [])"
proof
  show "NewReader [] ''token'' ''general'' (example_world (example_api (example_session (truncated_events None) False))) =
     (Inr (example_Reader (example_session (truncated_events None) False)), example_connected (example_session (truncated_events None) False))"
    using example_NewReader [of "example_session (truncated_events None) False"] by (simp add:
          example_session_def)
  show "spec_read_path ''general-id'' ''U1'' (truncated_events None) = ''hello'' @ [CHR 0x0A]
   \<and> snd (snd (run [Step, Read 6, Step, Read 6, Step]
                 (example_Reader (example_session (truncated_events None) False))
                 (example_connected (example_session (truncated_events None) False)) [])) = []
   \<and> spec_read_path ''general-id'' ''U1'' (truncated_events (Some zero_RTMMessage)) = ''hello'' @ [CHR 0x0A]
   \<and> snd (snd (run [Step, Read 6, Step, Read 6, Step]
                 (example_Reader (example_session (truncated_events (Some zero_RTMMessage)) False))
                 (example_connected (example_session (truncated_events (Some zero_RTMMessage)) False)) [])) = []"
    by (simp add: spec_read_path_def spec_line_def message_event_def malformed_event_def
          zero_RTMMessage_def truncated_events_def example_world_def example_client_def
          example_api_def example_session_def example_channels_def example_decoder_def
          example_common_def example_Reader_def example_connected_def Reader_reader_def
          reader_step_def receive_def reader_body_def PipeWriter_Write_start_def
          PipeWriter_Write_wait_def PipeWriter_CloseWithError_def onceError_Store_def
          writeCloseError_def readCloseError_def Reader_Read_def PipeReader_Read_def io_Pipe_def
          zero_RTMEvent_def)
qed

section \<open>Events that do not parse\<close>

lemma reader_step_malformed:
  assumes "event_Type ev = ''message''" and "event_Message ev = (msg, Some err)"
    and "Events b = ev # es"
  shows "\<exists>p' t'. reader_step cid uid b p Receiving = Some (b\<lparr>Events := es\<rparr>, p', t') \<and>
           closed_with p err p' \<and> t' \<noteq> Writing"
  using assms
  by (auto simp: reader_step_def receive_def reader_body_def closed_with_def
        PipeWriter_CloseWithError_def PipeWriter_Write_start_def onceError_Store_def Let_def
        split: option.splits)

lemma closed_with_Read:
  assumes "closed_with p err p'" and "werr p = None" and "rerr p = None"
  shows "PipeReader_Read p' n = (Returns ([], Some err), p')"
  using assms by (simp add: closed_with_def PipeReader_Read_def readCloseError_def)

text \<open>
  C3, as amended. For every event of kind message whose payload fails to parse, the
  loop (of \<^verbatim>\<open>Reader.reader\<close> and of \<^verbatim>\<open>Slack.reader\<close>) receives the event and closes
  the write end of the pipe with the parse error, which becomes the close error unless
  an earlier one is stored; no byte of the event is put into the pipe and no write is
  in flight afterwards. On a pipe that was open, every later foreground read returns
  no bytes and the parse error.
\<close>

theorem malformed_event_closes_conduit:
  assumes "event_Type ev = ''message''" and "event_Message ev = (msg, Some err)"
  shows "(Reader_pipe s = Some p \<and> Reader_task s = Receiving \<and>
          Events (brokers w (broker (Reader_common s))) = ev # es \<longrightarrow>
          (\<exists>s' p'. Reader_reader s w = Some (s', drained (Reader_common s) w es) \<and>
             Reader_pipe s' = Some p' \<and> closed_with p err p' \<and> Reader_task s' \<noteq> Writing \<and>
             (werr p = None \<and> rerr p = None \<longrightarrow>
                (\<forall>n. Reader_Read s' n = (Returns ([], Some err), s')))))
       \<and> (Slack_readPipe t = Some p \<and> Slack_broker t = Some a \<and> Slack_task t = Receiving \<and>
          Events (brokers w a) = ev # es \<longrightarrow>
          (\<exists>t' p'. Slack_reader t w =
               Some (t', w\<lparr>brokers := (brokers w)(a := (brokers w a)\<lparr>Events := es\<rparr>)\<rparr>) \<and>
             Slack_readPipe t' = Some p' \<and> closed_with p err p' \<and> Slack_task t' \<noteq> Writing))"
proof (intro conjI impI)
  assume h: "Reader_pipe s = Some p \<and> Reader_task s = Receiving \<and>
          Events (brokers w (broker (Reader_common s))) = ev # es"
  let ?b = "brokers w (broker (Reader_common s))"
  from reader_step_malformed [OF assms, of ?b es
        "channelID (Reader_common s)" "selfUserID (Reader_common s)" p] h
  obtain p' t' where st: "reader_step (channelID (Reader_common s)) (selfUserID (Reader_common s))
        ?b p Receiving = Some (?b\<lparr>Events := es\<rparr>, p', t')"
    and cl: "closed_with p err p'" and tw: "t' \<noteq> Writing"
    by blast
  let ?s' = "s\<lparr>Reader_pipe := Some p', Reader_task := t'\<rparr>"
  have 1: "Reader_reader s w = Some (?s', drained (Reader_common s) w es)"
    using h st by (simp add: Reader_reader_def Let_def drained_def)
  have 2: "werr p = None \<and> rerr p = None \<longrightarrow> (\<forall>n. Reader_Read ?s' n = (Returns ([], Some err), ?s'))"
    using cl by (simp add: closed_with_Read Reader_Read_def)
  show "\<exists>s' p'. Reader_reader s w = Some (s', drained (Reader_common s) w es) \<and>
             Reader_pipe s' = Some p' \<and> closed_with p err p' \<and> Reader_task s' \<noteq> Writing \<and>
             (werr p = None \<and> rerr p = None \<longrightarrow>
                (\<forall>n. Reader_Read s' n = (Returns ([], Some err), s')))"
    apply (rule exI [of _ ?s'], rule exI [of _ p'])
    using 1 2 cl tw by simp
next
  assume h: "Slack_readPipe t = Some p \<and> Slack_broker t = Some a \<and> Slack_task t = Receiving \<and>
          Events (brokers w a) = ev # es"
  from reader_step_malformed [OF assms, of "brokers w a" es
        "Slack_channelID t" "Slack_selfUserID t" p] h
  show "\<exists>t' p'. Slack_reader t w =
               Some (t', w\<lparr>brokers := (brokers w)(a := (brokers w a)\<lparr>Events := es\<rparr>)\<rparr>) \<and>
             Slack_readPipe t' = Some p' \<and> closed_with p err p' \<and> Slack_task t' \<noteq> Writing"
    by (auto simp: Slack_reader_def)
qed

text \<open>A truncated payload in the example world, for both adapters.\<close>

theorem malformed_event_closes_conduit_witness:
  "event_Type (malformed_event None) = ''message''
   \<and> event_Message (malformed_event None) = (None, Some (Failure ''unexpected end of JSON input''))
   \<and> (\<exists>s' p'. Reader_reader (example_Reader (example_session (truncated_events None) False))
                  (example_connected (example_session (truncated_events None) False)) =
                Some (s', drained (example_common (example_session (truncated_events None) False))
                            (example_connected (example_session (truncated_events None) False))
                            [message_event ''general-id'' ''U2'' ''hello''])
         \<and> Reader_pipe s' = Some p'
         \<and> closed_with io_Pipe (Failure ''unexpected end of JSON input'') p'
         \<and> Reader_task s' \<noteq> Writing
         \<and> Reader_Read s' 6 = (Returns ([], Some (Failure ''unexpected end of JSON input'')), s'))
   \<and> (\<exists>t' p'. Slack_reader (example_reading_Slack (example_session (truncated_events None) False))
                  (example_connected (example_session (truncated_events None) False)) =
                Some (t', drained (example_common (example_session (truncated_events None) False))
                            (example_connected (example_session (truncated_events None) False))
                            [message_event ''general-id'' ''U2'' ''hello''])
         \<and> Slack_readPipe t' = Some p'
         \<and> closed_with io_Pipe (Failure ''unexpected end of JSON input'') p'
         \<and> Slack_task t' \<noteq> Writing)"
proof -
  let ?ses = "example_session (truncated_events None) False"
  have ev: "event_Type (malformed_event None) = ''message''"
    "event_Message (malformed_event None) = (None, Some (Failure ''unexpected end of JSON input''))"
    by (simp_all add: malformed_event_def)
  have r: "Reader_pipe (example_Reader ?ses) = Some io_Pipe \<and>
           Reader_task (example_Reader ?ses) = Receiving \<and>
           Events (brokers (example_connected ?ses) (broker (Reader_common (example_Reader ?ses)))) =
             malformed_event None # [message_event ''general-id'' ''U2'' ''hello'']"
    by (simp add: example_world_def example_client_def example_api_def example_session_def
          example_channels_def example_decoder_def example_common_def example_Reader_def
          example_connected_def example_Slack_def example_reading_Slack_def truncated_events_def)
  have s: "Slack_readPipe (example_reading_Slack ?ses) = Some io_Pipe \<and>
           Slack_broker (example_reading_Slack ?ses) = Some 0 \<and>
           Slack_task (example_reading_Slack ?ses) = Receiving \<and>
           Events (brokers (example_connected ?ses) 0) =
             malformed_event None # [message_event ''general-id'' ''U2'' ''hello'']"
    by (simp add: example_world_def example_client_def example_api_def example_session_def
          example_channels_def example_decoder_def example_common_def example_Reader_def
          example_connected_def example_Slack_def example_reading_Slack_def truncated_events_def)
  have c: "Reader_common (example_Reader ?ses) = example_common ?ses"
    "broker (example_common ?ses) = 0"
    by (simp_all add: example_Reader_def example_common_def)
  from malformed_event_closes_conduit
         [OF ev, where s = "example_Reader ?ses" and p = io_Pipe and w = "example_connected ?ses"
            and es = "[message_event ''general-id'' ''U2'' ''hello'']"
            and t = "example_reading_Slack ?ses" and a = 0] r s ev
  show ?thesis
    by (simp add: c drained_def io_Pipe_def) blast
qed

text \<open>
  C3 as stated fails: a message event that does not parse closes the pipe. With a nil
  message the goroutine has then panicked; with a message that was half decoded, on
  the bound channel and from another user, it has returned, and the event hello is
  still on the stream.
\<close>

theorem malformed_event_not_ignored:
  "NewReader [] ''token'' ''general'' (example_world (example_api (example_session (truncated_events None) False))) =
     (Inr (example_Reader (example_session (truncated_events None) False)), example_connected (example_session (truncated_events None) False))
   \<and> ((case Reader_reader (example_Reader (example_session (truncated_events None) False))
           (example_connected (example_session (truncated_events None) False)) of
      Some (s', w') \<Rightarrow>
        Reader_pipe s' =
          Some \<lparr>wr_data = [], rerr = None,
                werr = Some (Failure ''unexpected end of JSON input''), pdone = True\<rparr>
        \<and> Reader_task s' = Panicked
    | None \<Rightarrow> False)
   \<and> (case Reader_reader (example_Reader (example_session (truncated_events (Some half_message)) False))
           (example_connected (example_session (truncated_events (Some half_message)) False)) of
      Some (s', w') \<Rightarrow>
        Reader_pipe s' =
          Some \<lparr>wr_data = [], rerr = None,
                werr = Some (Failure ''unexpected end of JSON input''), pdone = True\<rparr>
        \<and> Reader_task s' = Returned
        \<and> Events (brokers w' 0) = [message_event ''general-id'' ''U2'' ''hello'']
    | None \<Rightarrow> False))"
proof
  show "NewReader [] ''token'' ''general'' (example_world (example_api (example_session (truncated_events None) False))) =
     (Inr (example_Reader (example_session (truncated_events None) False)), example_connected (example_session (truncated_events None) False))"
    using example_NewReader [of "example_session (truncated_events None) False"] by (simp add:
          example_session_def)
  show "(case Reader_reader (example_Reader (example_session (truncated_events None) False))
           (example_connected (example_session (truncated_events None) False)) of
      Some (s', w') \<Rightarrow>
        Reader_pipe s' =
          Some \<lparr>wr_data = [], rerr = None,
                werr = Some (Failure ''unexpected end of JSON input''), pdone = True\<rparr>
        \<and> Reader_task s' = Panicked
    | None \<Rightarrow> False)
   \<and> (case Reader_reader (example_Reader (example_session (truncated_events (Some half_message)) False))
           (example_connected (example_session (truncated_events (Some half_message)) False)) of
      Some (s', w') \<Rightarrow>
        Reader_pipe s' =
          Some \<lparr>wr_data = [], rerr = None,
                werr = Some (Failure ''unexpected end of JSON input''), pdone = True\<rparr>
        \<and> Reader_task s' = Returned
        \<and> Events (brokers w' 0) = [message_event ''general-id'' ''U2'' ''hello'']
    | None \<Rightarrow> False)"
    by (simp add: message_event_def malformed_event_def truncated_events_def half_message_def
          example_world_def example_client_def example_api_def example_session_def
          example_channels_def example_decoder_def example_common_def example_Reader_def
          example_connected_def Reader_reader_def reader_step_def receive_def reader_body_def
          PipeWriter_Write_start_def PipeWriter_Write_wait_def PipeWriter_CloseWithError_def
          onceError_Store_def writeCloseError_def io_Pipe_def zero_RTMEvent_def)
qed

section \<open>The end of the event stream\<close>

lemma reader_step_closed_stream:
  assumes "Events_closed b" and "Events b = []"
  shows "reader_step cid uid b p Receiving = Some (b, p, Receiving)"
  using assms by (simp add: reader_step_def receive_def reader_body_def zero_RTMEvent_def)

lemma Reader_reader_closed_stream:
  assumes "Reader_pipe s = Some p" "Reader_task s = Receiving"
    "Events_closed (brokers w (broker (Reader_common s)))"
    "Events (brokers w (broker (Reader_common s))) = []"
  shows "Reader_reader s w = Some (s, w)"
proof -
  have "s\<lparr>Reader_pipe := Some p, Reader_task := Receiving\<rparr> = s"
    using assms(1,2) by simp
  then show ?thesis
    using assms by (simp add: Reader_reader_def Let_def reader_step_closed_stream)
qed

lemma run_Steps_fixpoint:
  "Reader_reader s w = Some (s, w) \<or> Reader_reader s w = None \<Longrightarrow>
   run (replicate k Step) s w out = (s, w, out)"
  by (induction k) auto

text \<open>
  C4, as amended. The loop has no case for the end of the event stream. Once the stream
  is closed and drained, each receive yields the zero event, which is not of kind
  message; the goroutine takes the step and is where it was: the pipe is not closed,
  no error is stored, and the loop neither stops nor blocks, however many steps it is
  given.
\<close>

theorem closed_stream_spins:
  "(Reader_pipe s = Some p \<and> Reader_task s = Receiving \<and>
    Events_closed (brokers w (broker (Reader_common s))) \<and>
    Events (brokers w (broker (Reader_common s))) = [] \<longrightarrow>
      Reader_reader s w = Some (s, w) \<and> (\<forall>k out. run (replicate k Step) s w out = (s, w, out)))
   \<and> (Slack_readPipe t = Some p \<and> Slack_broker t = Some a \<and> Slack_task t = Receiving \<and>
      Events_closed (brokers w a) \<and> Events (brokers w a) = [] \<longrightarrow>
      Slack_reader t w = Some (t, w))"
proof (intro conjI impI)
  assume h: "Reader_pipe s = Some p \<and> Reader_task s = Receiving \<and>
    Events_closed (brokers w (broker (Reader_common s))) \<and>
    Events (brokers w (broker (Reader_common s))) = []"
  then have r: "Reader_reader s w = Some (s, w)"
    using Reader_reader_closed_stream by blast
  then show "Reader_reader s w = Some (s, w)" .
  from r show "\<forall>k out. run (replicate k Step) s w out = (s, w, out)"
    using run_Steps_fixpoint by blast
next
  assume h: "Slack_readPipe t = Some p \<and> Slack_broker t = Some a \<and> Slack_task t = Receiving \<and>
      Events_closed (brokers w a) \<and> Events (brokers w a) = []"
  then have "t\<lparr>Slack_readPipe := Some p, Slack_task := Receiving\<rparr> = t" by simp
  with h show "Slack_reader t w = Some (t, w)"
    by (simp add: Slack_reader_def reader_step_closed_stream)
qed

text \<open>A closed and empty stream in the example world, for both adapters.\<close>

theorem closed_stream_spins_witness:
  "Events_closed (brokers (example_connected (example_session [] True)) 0)
   \<and> Events (brokers (example_connected (example_session [] True)) 0) = []
   \<and> Reader_reader (example_Reader (example_session [] True)) (example_connected (example_session [] True)) =
       Some (example_Reader (example_session [] True), example_connected (example_session [] True))
   \<and> run (replicate 7 Step) (example_Reader (example_session [] True))
        (example_connected (example_session [] True)) [] =
       (example_Reader (example_session [] True), example_connected (example_session [] True), [])
   \<and> Slack_reader (example_reading_Slack (example_session [] True))
        (example_connected (example_session [] True)) =
       Some (example_reading_Slack (example_session [] True), example_connected (example_session [] True))"
proof -
  let ?ses = "example_session [] True"
  have r: "Reader_pipe (example_Reader ?ses) = Some io_Pipe \<and>
           Reader_task (example_Reader ?ses) = Receiving \<and>
           Events_closed (brokers (example_connected ?ses) (broker (Reader_common (example_Reader ?ses)))) \<and>
           Events (brokers (example_connected ?ses) (broker (Reader_common (example_Reader ?ses)))) = []"
    by (simp add: example_world_def example_client_def example_api_def example_session_def
          example_channels_def example_decoder_def example_common_def example_Reader_def
          example_connected_def example_Slack_def example_reading_Slack_def)
  have s: "Slack_readPipe (example_reading_Slack ?ses) = Some io_Pipe \<and>
           Slack_broker (example_reading_Slack ?ses) = Some 0 \<and>
           Slack_task (example_reading_Slack ?ses) = Receiving \<and>
           Events_closed (brokers (example_connected ?ses) 0) \<and>
           Events (brokers (example_connected ?ses) 0) = []"
    by (simp add: example_world_def example_client_def example_api_def example_session_def
          example_channels_def example_decoder_def example_common_def example_Reader_def
          example_connected_def example_Slack_def example_reading_Slack_def)
  from closed_stream_spins
         [where s = "example_Reader ?ses" and p = io_Pipe and w = "example_connected ?ses"
            and t = "example_reading_Slack ?ses" and a = 0] r s
  show ?thesis by simp
qed

text \<open>
  C4 as stated fails: on a closed stream the goroutine can step, and after three steps
  it is still at the receive and the pipe is still open, without an error.
\<close>

theorem closed_stream_not_propagated:
  "NewReader [] ''token'' ''general'' (example_world (example_api (example_session [] True))) =
     (Inr (example_Reader (example_session [] True)), example_connected (example_session [] True))
   \<and> (Events_closed (brokers (example_connected (example_session [] True)) 0)
   \<and> Events (brokers (example_connected (example_session [] True)) 0) = []
   \<and> Reader_reader (example_Reader (example_session [] True))
        (example_connected (example_session [] True)) \<noteq> None
   \<and> (case run [Step, Step, Step] (example_Reader (example_session [] True))
              (example_connected (example_session [] True)) [] of
        (s', w', out) \<Rightarrow>
          Reader_task s' = Receiving
          \<and> Reader_pipe s' = Some \<lparr>wr_data = [], rerr = None, werr = None, pdone = False\<rparr>))"
proof
  show "NewReader [] ''token'' ''general'' (example_world (example_api (example_session [] True))) =
     (Inr (example_Reader (example_session [] True)), example_connected (example_session [] True))"
    using example_NewReader [of "example_session [] True"] by (simp add: example_session_def)
  show "Events_closed (brokers (example_connected (example_session [] True)) 0)
   \<and> Events (brokers (example_connected (example_session [] True)) 0) = []
   \<and> Reader_reader (example_Reader (example_session [] True))
        (example_connected (example_session [] True)) \<noteq> None
   \<and> (case run [Step, Step, Step] (example_Reader (example_session [] True))
              (example_connected (example_session [] True)) [] of
        (s', w', out) \<Rightarrow>
          Reader_task s' = Receiving
          \<and> Reader_pipe s' = Some \<lparr>wr_data = [], rerr = None, werr = None, pdone = False\<rparr>)"
    by (simp add: example_world_def example_client_def example_api_def example_session_def
          example_channels_def example_decoder_def example_common_def example_Reader_def
          example_connected_def Reader_reader_def reader_step_def receive_def reader_body_def
          PipeWriter_Write_start_def PipeWriter_Write_wait_def PipeWriter_CloseWithError_def
          onceError_Store_def writeCloseError_def readCloseError_def Reader_Read_def
          PipeReader_Read_def io_Pipe_def zero_RTMEvent_def)
qed

section \<open>The pipe has no buffer\<close>






end
